theory Spec2Isabelle
  imports Main
begin

section \<open>Python values\<close>

text \<open>
  The handlers of \<^verbatim>\<open>src/server/app.py\<close> read the fields of the request's JSON
  body with \<^verbatim>\<open>data.get\<close>. A field of a JSON object is modelled as a JSON scalar:
  null (Python's None), a boolean, an integer or a string; arrays, nested objects and
  floating point numbers as field values are outside the model. A JSON object is a
  partial map from field names to such values. The body itself need not be an object:
  see \<open>request_body\<close> below.
\<close>

datatype pyval = PyNone | PyBool bool | PyInt int | PyStr string

text \<open>Python's truth value, as \<^verbatim>\<open>not username\<close> and \<^verbatim>\<open>if username:\<close> read it.\<close>

fun truthy :: "pyval \<Rightarrow> bool" where
  "truthy PyNone = False"
| "truthy (PyBool b) = b"
| "truthy (PyInt n) = (n \<noteq> 0)"
| "truthy (PyStr s) = (s \<noteq> [])"

fun str_nat :: "nat \<Rightarrow> string" where
  "str_nat n =
     (if n < 10 then [''0123456789'' ! n]
      else str_nat (n div 10) @ [''0123456789'' ! (n mod 10)])"

declare str_nat.simps [simp del]

text \<open>What an f-string substitutes for \<^verbatim>\<open>{v}\<close>.\<close>

fun py_str :: "pyval \<Rightarrow> string" where
  "py_str PyNone = ''None''"
| "py_str (PyBool b) = (if b then ''True'' else ''False'')"
| "py_str (PyInt n) = (if n < 0 then ''-'' @ str_nat (nat (- n)) else str_nat (nat n))"
| "py_str (PyStr s) = s"

type_synonym json_object = "string \<Rightarrow> pyval option"

text \<open>\<^verbatim>\<open>data.get(key)\<close> and \<^verbatim>\<open>data.get(key, default)\<close>.\<close>

definition dict_get_default :: "json_object \<Rightarrow> string \<Rightarrow> pyval \<Rightarrow> pyval" where
  "dict_get_default data key dflt = (case data key of None \<Rightarrow> dflt | Some v \<Rightarrow> v)"

definition dict_get :: "json_object \<Rightarrow> string \<Rightarrow> pyval" where
  "dict_get data key = dict_get_default data key PyNone"

text \<open>
  A Python dict with string keys, in insertion order; \<^verbatim>\<open>d[k] = v\<close> overwrites the
  value of a key that is present and appends a new key otherwise.
\<close>

fun dict_set :: "string \<Rightarrow> string \<Rightarrow> (string \<times> string) list \<Rightarrow> (string \<times> string) list" where
  "dict_set k v [] = [(k, v)]"
| "dict_set k v ((k', v') # d) = (if k = k' then (k, v) # d else (k', v') # dict_set k v d)"

text \<open>The substring test \<^verbatim>\<open>needle in haystack\<close> on strings.\<close>

fun starts_with :: "string \<Rightarrow> string \<Rightarrow> bool" where
  "starts_with [] s = True"
| "starts_with (c # cs) [] = False"
| "starts_with (c # cs) (d # ds) = (c = d \<and> starts_with cs ds)"

fun str_contains :: "string \<Rightarrow> string \<Rightarrow> bool" where
  "str_contains needle [] = (needle = [])"
| "str_contains needle (c # cs) = (starts_with needle (c # cs) \<or> str_contains needle cs)"


section \<open>Exceptions\<close>

text \<open>
  The exception classes the two source files name, and the built-in classes their
  control flow meets. The classes of the instaloader library are declared in its
  exceptions module, which is not among the source files; \<open>mro\<close> lists each class
  with its base classes as that module and Python's built-ins declare them.
  \<open>OSError\<close> stands for a failure of the network or of the operating system below
  the library (the HTTP client's connection error is one), \<open>HTTPException\<close> for the
  errors the web framework raises itself when it cannot read a request.
\<close>

datatype exn_class =
    BaseException
  | KeyboardInterrupt
  | Exception
  | AttributeError
  | NameError
  | TypeError
  | OSError
  | InstaloaderException
  | LoginException
  | BadCredentialsException
  | TwoFactorAuthRequiredException
  | InvalidArgumentException
  | ProfileNotExistsException
  | AbortDownloadException
  | HTTPException

fun mro :: "exn_class \<Rightarrow> exn_class list" where
  "mro BaseException = [BaseException]"
| "mro KeyboardInterrupt = [KeyboardInterrupt, BaseException]"
| "mro Exception = [Exception, BaseException]"
| "mro AttributeError = [AttributeError, Exception, BaseException]"
| "mro NameError = [NameError, Exception, BaseException]"
| "mro TypeError = [TypeError, Exception, BaseException]"
| "mro OSError = [OSError, Exception, BaseException]"
| "mro InstaloaderException = [InstaloaderException, Exception, BaseException]"
| "mro LoginException = [LoginException, InstaloaderException, Exception, BaseException]"
| "mro BadCredentialsException =
     [BadCredentialsException, LoginException, InstaloaderException, Exception, BaseException]"
| "mro TwoFactorAuthRequiredException =
     [TwoFactorAuthRequiredException, LoginException, InstaloaderException, Exception,
      BaseException]"
| "mro InvalidArgumentException =
     [InvalidArgumentException, InstaloaderException, Exception, BaseException]"
| "mro ProfileNotExistsException =
     [ProfileNotExistsException, InstaloaderException, Exception, BaseException]"
| "mro AbortDownloadException = [AbortDownloadException, Exception, BaseException]"
| "mro HTTPException = [HTTPException, Exception, BaseException]"

text \<open>An exception object: its class and its message (what \<^verbatim>\<open>{e}\<close> prints).\<close>

type_synonym exn = "exn_class \<times> string"

definition isinstance :: "exn \<Rightarrow> exn_class \<Rightarrow> bool" where
  "isinstance e c = (c \<in> set (mro (fst e)))"


section \<open>The loader's context, the external libraries and the process state\<close>

text \<open>
  Modelled from the spec: the class \<^verbatim>\<open>InstaloaderContext\<close> of the instaloader library
  is not among the source files. The spec calls it the AuthenticatedContext: a username
  and the transport state, of which the source touches the cookies
  (\<^verbatim>\<open>context.update_cookies\<close>, "installs the cookie set into a transport context")
  and the username (\<^verbatim>\<open>context.username = username\<close>).
\<close>

record ctx =
  ctx_cookies :: "(string \<times> string) list"
  ctx_username :: pyval

definition update_cookies :: "(string \<times> string) list \<Rightarrow> ctx \<Rightarrow> ctx" where
  "update_cookies cookie c =
     c\<lparr>ctx_cookies := fold (\<lambda>(k, v). dict_set k v) cookie (ctx_cookies c)\<rparr>"

text \<open>A cookie as the browser_cookie3 library returns it.\<close>

record cookie =
  cookie_domain :: string
  cookie_name :: string
  cookie_value :: string

text \<open>
  The external collaborators are parameters of the model: what the module-level import
  of browser_cookie3 found, and the outcome of every call into browser_cookie3 and
  instaloader. A call either raises (\<open>Inl\<close>, or \<open>Some\<close> for a call without a result)
  or returns. A call into instaloader works on the loader's context and may change it
  whether it returns or raises, so its outcome comes with the context it leaves. A
  profile object is identified by a string.
\<close>

record env =
  bc3_library :: bool
  browser_cookie3 :: "string \<Rightarrow> pyval \<Rightarrow> exn + cookie list"
  Instaloader_login :: "pyval \<Rightarrow> pyval \<Rightarrow> ctx \<Rightarrow> exn option \<times> ctx"
  Instaloader_test_login :: "ctx \<Rightarrow> (exn + pyval) \<times> ctx"
  Profile_from_username :: "pyval \<Rightarrow> ctx \<Rightarrow> (exn + string) \<times> ctx"
  Instaloader_download_profile :: "string \<Rightarrow> pyval list \<Rightarrow> ctx \<Rightarrow> exn option \<times> ctx"
  Instaloader_download_hashtag :: "pyval \<Rightarrow> pyval \<Rightarrow> ctx \<Rightarrow> exn option \<times> ctx"
  Instaloader_download_stories :: "string list \<Rightarrow> ctx \<Rightarrow> exn option \<times> ctx"
  Instaloader_close :: "ctx \<Rightarrow> exn option \<times> ctx"

text \<open>The attributes \<^verbatim>\<open>app.py\<close> calls on its \<^verbatim>\<open>loader\<close> object.\<close>

datatype loader_method =
    M_login
  | M_load_session_from_file
  | M_save_session_to_file
  | M_load_session_from_browser
  | M_download_profile
  | M_download_hashtag
  | M_download_stories
  | M_close

text \<open>
  The trace is a history variable: it records, in order, every call a handler attempts
  on the \<^verbatim>\<open>loader\<close> object, with the arguments the handler has computed for it
  (also when the attribute turns out to be missing), and every call into the external
  libraries. The code does not hold it; theorems read it to say what was invoked.
\<close>

datatype event =
    LoaderCall loader_method "pyval list"
  | ExtLogin pyval pyval
  | ExtTestLogin
  | ExtBrowserCookies string pyval
  | ExtProfileFromUsername pyval
  | ExtDownloadProfile string "pyval list"
  | ExtDownloadHashtag pyval pyval
  | ExtDownloadStories "string list"
  | ExtClose

text \<open>
  The state of the server process: the context of the one shared
  \<^verbatim>\<open>loader = InstagramLoader()\<close>, the files on disk (the session store is the files
  under \<^verbatim>\<open>sessions/\<close>), the two output streams and the trace.
\<close>

record world =
  loader_context :: ctx
  files :: "string \<Rightarrow> string option"
  stdout :: "string list"
  stderr :: "string list"
  trace :: "event list"

definition print_stdout :: "string \<Rightarrow> world \<Rightarrow> world" where
  "print_stdout s w = w\<lparr>stdout := stdout w @ [s]\<rparr>"

definition print_stderr :: "string \<Rightarrow> world \<Rightarrow> world" where
  "print_stderr s w = w\<lparr>stderr := stderr w @ [s]\<rparr>"

definition log_event :: "event \<Rightarrow> world \<Rightarrow> world" where
  "log_event ev w = w\<lparr>trace := trace w @ [ev]\<rparr>"

text \<open>
  A call into the instaloader library: it is recorded, runs on the loader's context and
  leaves the context it leaves.
\<close>

definition external :: "event \<Rightarrow> (ctx \<Rightarrow> 'a \<times> ctx) \<Rightarrow> world \<Rightarrow> 'a \<times> world" where
  "external ev f w =
     (let w1 = log_event ev w;
          (r, c) = f (loader_context w1)
      in (r, w1\<lparr>loader_context := c\<rparr>))"

text \<open>
  Modelled from the spec: \<^verbatim>\<open>Instaloader()\<close> is not among the source files; the spec's
  initial state is NoIdentity, a context with no cookies and no username.
\<close>

definition anonymous_context :: ctx where
  "anonymous_context = \<lparr>ctx_cookies = [], ctx_username = PyNone\<rparr>"

definition initial_world :: world where
  "initial_world =
     \<lparr>loader_context = anonymous_context, files = (\<lambda>p. None), stdout = [], stderr = [],
      trace = []\<rparr>"


section \<open>src/instaloader/instaloader\_api.py: class InstagramLoader\<close>

type_synonym 'a result = "(exn + 'a) \<times> world"

text \<open>\<^verbatim>\<open>InstagramLoader.login\<close>, lines 49 to 65.\<close>

definition InstagramLoader_login :: "env \<Rightarrow> pyval \<Rightarrow> pyval \<Rightarrow> world \<Rightarrow> pyval result" where
  "InstagramLoader_login E username password w =
     (case external (ExtLogin username password) (Instaloader_login E username password) w of
        (None, w1) \<Rightarrow> (Inr (PyBool True), w1)
      | (Some e, w1) \<Rightarrow>
          if isinstance e BadCredentialsException
             \<or> isinstance e TwoFactorAuthRequiredException
             \<or> isinstance e LoginException
          then (Inr (PyBool False), print_stderr (''Login failed: '' @ snd e) w1)
          else (Inl e, w1))"

text \<open>
  \<^verbatim>\<open>InstagramLoader._get_cookies_from_browser\<close>, lines 97 to 133. The dict
  \<^verbatim>\<open>supported_browsers\<close> maps each allowed name to the routine of browser_cookie3 of
  that name; the name \<^verbatim>\<open>browser_cookie3\<close> is unbound when the import failed.
\<close>

definition supported_browsers :: "(string \<times> string) list" where
  "supported_browsers =
     [(''brave'', ''brave''), (''chrome'', ''chrome''), (''chromium'', ''chromium''),
      (''edge'', ''edge''), (''firefox'', ''firefox''), (''librewolf'', ''librewolf''),
      (''opera'', ''opera''), (''opera_gx'', ''opera_gx''), (''safari'', ''safari''),
      (''vivaldi'', ''vivaldi'')]"

fun lookup_browser :: "pyval \<Rightarrow> string option" where
  "lookup_browser (PyStr s) = map_of supported_browsers s"
| "lookup_browser _ = None"

fun instagram_cookies :: "cookie list \<Rightarrow> (string \<times> string) list \<Rightarrow> (string \<times> string) list" where
  "instagram_cookies [] cookies = cookies"
| "instagram_cookies (c # cs) cookies =
     instagram_cookies cs
       (if str_contains ''instagram.com'' (cookie_domain c)
        then dict_set (cookie_name c) (cookie_value c) cookies
        else cookies)"

definition InstagramLoader_get_cookies_from_browser ::
    "env \<Rightarrow> pyval \<Rightarrow> pyval \<Rightarrow> world \<Rightarrow> ((string \<times> string) list) result" where
  "InstagramLoader_get_cookies_from_browser E browser cookiefile w =
     (if \<not> bc3_library E
      then (Inl (NameError, ''name 'browser_cookie3' is not defined''), w)
      else
        case lookup_browser browser of
          None \<Rightarrow>
            (Inl (InvalidArgumentException, ''Unsupported browser: '' @ py_str browser), w)
        | Some routine \<Rightarrow>
            (let w1 = log_event (ExtBrowserCookies routine cookiefile) w in
             case browser_cookie3 E routine cookiefile of
               Inl e \<Rightarrow> (Inl e, w1)
             | Inr browser_cookies \<Rightarrow>
                 (let cookies = instagram_cookies browser_cookies [] in
                  if cookies = []
                  then (Inl (LoginException,
                          ''No Instagram cookies found in '' @ py_str browser @ ''.''), w1)
                  else (Inr cookies, w1))))"

text \<open>
  \<^verbatim>\<open>InstagramLoader.load_session_from_browser\<close>, lines 67 to 95: first the body of
  the \<^verbatim>\<open>try\<close> block (lines 83 to 92), then the method with its guard and its
  \<^verbatim>\<open>except Exception\<close>.
\<close>

definition load_session_from_browser_try :: "env \<Rightarrow> pyval \<Rightarrow> pyval \<Rightarrow> world \<Rightarrow> pyval result" where
  "load_session_from_browser_try E browser cookiefile w =
     (case InstagramLoader_get_cookies_from_browser E browser cookiefile w of
        (Inl e, w1) \<Rightarrow> (Inl e, w1)
      | (Inr cookies, w1) \<Rightarrow>
          (let w2 = w1\<lparr>loader_context := update_cookies cookies (loader_context w1)\<rparr>
           in case external ExtTestLogin (Instaloader_test_login E) w2 of
                (Inl e, w3) \<Rightarrow> (Inl e, w3)
              | (Inr username, w3) \<Rightarrow>
                  if truthy username
                  then (Inr (PyBool True),
                        print_stdout
                          (''Logged in as '' @ py_str username @ '' using cookies from ''
                             @ py_str browser @ ''.'')
                          (w3\<lparr>loader_context := (loader_context w3)\<lparr>ctx_username := username\<rparr>\<rparr>))
                  else (Inr (PyBool False),
                        print_stderr ''Failed to log in using cookies.'' w3)))"

definition InstagramLoader_load_session_from_browser ::
    "env \<Rightarrow> pyval \<Rightarrow> pyval \<Rightarrow> world \<Rightarrow> pyval result" where
  "InstagramLoader_load_session_from_browser E browser cookiefile w =
     (if \<not> bc3_library E
      then (Inr (PyBool False),
            print_stderr
              ''browser_cookie3 library is required to load cookies from browsers.'' w)
      else
        case load_session_from_browser_try E browser cookiefile w of
          (Inr r, w1) \<Rightarrow> (Inr r, w1)
        | (Inl e, w1) \<Rightarrow>
            if isinstance e Exception
            then (Inr (PyBool False), print_stderr (''Failed to load cookies: '' @ snd e) w1)
            else (Inl e, w1))"

text \<open>
  \<^verbatim>\<open>InstagramLoader.download_profile\<close>, lines 135 to 180. \<open>flags\<close> are the seven
  keyword arguments, in the order of the signature; they are handed on unchanged.
\<close>

definition download_profile_except :: "exn \<Rightarrow> world \<Rightarrow> pyval result" where
  "download_profile_except e w =
     (if isinstance e ProfileNotExistsException
      then (Inr (PyBool False), print_stderr (''Profile not found: '' @ snd e) w)
      else if isinstance e InstaloaderException
      then (Inr (PyBool False), print_stderr (''Failed to download profile: '' @ snd e) w)
      else (Inl e, w))"

definition InstagramLoader_download_profile ::
    "env \<Rightarrow> pyval \<Rightarrow> pyval list \<Rightarrow> world \<Rightarrow> pyval result" where
  "InstagramLoader_download_profile E profile_name flags w =
     (case external (ExtProfileFromUsername profile_name)
             (Profile_from_username E profile_name) w of
        (Inl e, w1) \<Rightarrow> download_profile_except e w1
      | (Inr profile, w1) \<Rightarrow>
          (case external (ExtDownloadProfile profile flags)
                  (Instaloader_download_profile E profile flags) w1 of
             (Some e, w2) \<Rightarrow> download_profile_except e w2
           | (None, w2) \<Rightarrow> (Inr (PyBool True), w2)))"

text \<open>\<^verbatim>\<open>InstagramLoader.download_hashtag\<close>, lines 182 to 198.\<close>

definition InstagramLoader_download_hashtag ::
    "env \<Rightarrow> pyval \<Rightarrow> pyval \<Rightarrow> world \<Rightarrow> pyval result" where
  "InstagramLoader_download_hashtag E hashtag max_count w =
     (case external (ExtDownloadHashtag hashtag max_count)
             (Instaloader_download_hashtag E hashtag max_count) w of
        (None, w1) \<Rightarrow> (Inr (PyBool True), w1)
      | (Some e, w1) \<Rightarrow>
          if isinstance e InstaloaderException
          then (Inr (PyBool False), print_stderr (''Failed to download hashtag: '' @ snd e) w1)
          else (Inl e, w1))"

text \<open>\<^verbatim>\<open>InstagramLoader.download_stories\<close>, lines 200 to 216.\<close>

definition download_stories_except :: "exn \<Rightarrow> world \<Rightarrow> pyval result" where
  "download_stories_except e w =
     (if isinstance e InstaloaderException
      then (Inr (PyBool False), print_stderr (''Failed to download stories: '' @ snd e) w)
      else (Inl e, w))"

definition InstagramLoader_download_stories :: "env \<Rightarrow> pyval \<Rightarrow> world \<Rightarrow> pyval result" where
  "InstagramLoader_download_stories E profile_name w =
     (case external (ExtProfileFromUsername profile_name)
             (Profile_from_username E profile_name) w of
        (Inl e, w1) \<Rightarrow> download_stories_except e w1
      | (Inr profile, w1) \<Rightarrow>
          (case external (ExtDownloadStories [profile])
                  (Instaloader_download_stories E [profile]) w1 of
             (Some e, w2) \<Rightarrow> download_stories_except e w2
           | (None, w2) \<Rightarrow> (Inr (PyBool True), w2)))"

text \<open>\<^verbatim>\<open>InstagramLoader.close\<close>, lines 218 to 220.\<close>

definition InstagramLoader_close :: "env \<Rightarrow> world \<Rightarrow> pyval result" where
  "InstagramLoader_close E w =
     (case external ExtClose (Instaloader_close E) w of
        (Some e, w1) \<Rightarrow> (Inl e, w1)
      | (None, w1) \<Rightarrow> (Inr PyNone, w1))"

text \<open>
  A call \<^verbatim>\<open>loader.m(args)\<close> from a handler. The class body (lines 44 to 220) defines
  \<^verbatim>\<open>login\<close>, \<^verbatim>\<open>load_session_from_browser\<close>, \<^verbatim>\<open>download_profile\<close>,
  \<^verbatim>\<open>download_hashtag\<close>, \<^verbatim>\<open>download_stories\<close> and \<^verbatim>\<open>close\<close>; it defines
  neither \<^verbatim>\<open>load_session_from_file\<close> nor \<^verbatim>\<open>save_session_to_file\<close>, has no base
  class and no \<^verbatim>\<open>__getattr__\<close>, so looking either up raises AttributeError.
\<close>

definition no_attribute :: "string \<Rightarrow> exn" where
  "no_attribute name =
     (AttributeError,
      [CHR 0x27] @ ''InstagramLoader'' @ [CHR 0x27] @ '' object has no attribute ''
        @ [CHR 0x27] @ name @ [CHR 0x27])"

definition bad_arguments :: exn where
  "bad_arguments = (TypeError, ''wrong number of arguments'')"

fun dispatch :: "env \<Rightarrow> loader_method \<Rightarrow> pyval list \<Rightarrow> world \<Rightarrow> pyval result" where
  "dispatch E M_load_session_from_file args w =
     (Inl (no_attribute ''load_session_from_file''), w)"
| "dispatch E M_save_session_to_file args w =
     (Inl (no_attribute ''save_session_to_file''), w)"
| "dispatch E M_login [username, password] w = InstagramLoader_login E username password w"
| "dispatch E M_load_session_from_browser [browser, cookiefile] w =
     InstagramLoader_load_session_from_browser E browser cookiefile w"
| "dispatch E M_download_profile
     [profile_name, download_posts, download_stories, download_highlights, download_tagged,
      download_reels, download_igtv, fast_update] w =
     InstagramLoader_download_profile E profile_name
       [download_posts, download_stories, download_highlights, download_tagged,
        download_reels, download_igtv, fast_update] w"
| "dispatch E M_download_hashtag [hashtag, max_count] w =
     InstagramLoader_download_hashtag E hashtag max_count w"
| "dispatch E M_download_stories [profile_name] w =
     InstagramLoader_download_stories E profile_name w"
| "dispatch E M_close [] w = InstagramLoader_close E w"
| "dispatch E m args w = (Inl bad_arguments, w)"

definition InstagramLoader_call ::
    "env \<Rightarrow> loader_method \<Rightarrow> pyval list \<Rightarrow> world \<Rightarrow> pyval result" where
  "InstagramLoader_call E m args w = dispatch E m args (log_event (LoaderCall m args) w)"


section \<open>src/server/app.py: the request handlers\<close>

text \<open>A response: the two fields of the JSON body and the HTTP status code.\<close>

record response =
  status :: string
  message :: string
  http_status :: nat

definition jsonify :: "string \<Rightarrow> string \<Rightarrow> nat \<Rightarrow> response" where
  "jsonify st msg n = \<lparr>status = st, message = msg, http_status = n\<rparr>"

definition SESSION_DIR :: string where
  "SESSION_DIR = ''sessions''"

text \<open>\<^verbatim>\<open>os.path.join\<close> of two components and \<^verbatim>\<open>os.path.exists\<close>, on a POSIX system.\<close>

definition os_path_join :: "string \<Rightarrow> string \<Rightarrow> string" where
  "os_path_join a b =
     (if starts_with ''/'' b then b
      else if a = [] \<or> last a = CHR ''/'' then a @ b
      else a @ ''/'' @ b)"

definition os_path_exists :: "world \<Rightarrow> string \<Rightarrow> bool" where
  "os_path_exists w p = (files w p \<noteq> None)"

text \<open>\<^verbatim>\<open>get_session_file\<close>, lines 14 to 18.\<close>

definition get_session_file :: "pyval \<Rightarrow> string" where
  "get_session_file username = os_path_join SESSION_DIR (py_str username @ ''.session'')"

text \<open>
  What \<^verbatim>\<open>request.json\<close> returns: the parsed JSON body, which is a dict only when the
  body is a JSON object. The elements of an array play no part, and a number is an
  integer here.
\<close>

datatype request_body =
    JsonObject json_object
  | JsonNull
  | JsonBool bool
  | JsonNumber int
  | JsonString string
  | JsonArray

fun type_name :: "request_body \<Rightarrow> string" where
  "type_name (JsonObject d) = ''dict''"
| "type_name JsonNull = ''NoneType''"
| "type_name (JsonBool b) = ''bool''"
| "type_name (JsonNumber n) = ''int''"
| "type_name (JsonString s) = ''str''"
| "type_name JsonArray = ''list''"

text \<open>
  Every handler but \<^verbatim>\<open>close\<close> starts with \<^verbatim>\<open>data = request.json\<close> and reads
  its fields with \<^verbatim>\<open>data.get\<close>, unguarded. \<^verbatim>\<open>request.json\<close> is the
  framework's: it raises when the request has no JSON body it can parse (\<open>Inl\<close>),
  and returns the parsed body otherwise. Only a dict has a \<^verbatim>\<open>get\<close>: on any other
  parsed body the first \<^verbatim>\<open>data.get\<close> raises AttributeError.
\<close>

fun request_data :: "exn + request_body \<Rightarrow> exn + json_object" where
  "request_data (Inl e) = Inl e"
| "request_data (Inr (JsonObject d)) = Inr d"
| "request_data (Inr body) =
     Inl (AttributeError,
          [CHR 0x27] @ type_name body @ [CHR 0x27] @ '' object has no attribute ''
            @ [CHR 0x27] @ ''get'' @ [CHR 0x27])"

text \<open>
  A handler takes the outcome of \<^verbatim>\<open>request.json\<close> and the process state; it returns
  a response or lets an exception reach the framework (\<open>Inl\<close>), and the state it
  leaves.
\<close>

text \<open>\<^verbatim>\<open>login\<close>, lines 21 to 47.\<close>

definition login :: "env \<Rightarrow> exn + request_body \<Rightarrow> world \<Rightarrow> response result" where
  "login E request_json w =
     (case request_data request_json of
        Inl e \<Rightarrow> (Inl e, w)
      | Inr data \<Rightarrow>
     (let username = dict_get data ''username'';
          password = dict_get data ''password''
      in if \<not> truthy username \<or> \<not> truthy password
         then (Inr (jsonify ''failed'' ''Username and password are required.'' 400), w)
         else
           let session_file = get_session_file username;
               fresh_login = (\<lambda>w1.
                 case InstagramLoader_call E M_login [username, password] w1 of
                   (Inl e, w2) \<Rightarrow> (Inl e, w2)
                 | (Inr ok, w2) \<Rightarrow>
                     if truthy ok
                     then (case InstagramLoader_call E M_save_session_to_file
                                  [PyStr session_file] w2 of
                             (Inl e, w3) \<Rightarrow> (Inl e, w3)
                           | (Inr r, w3) \<Rightarrow>
                               (Inr (jsonify ''success'' ''Logged in successfully.'' 200), w3))
                     else (Inr (jsonify ''failed'' ''Login failed. Check your credentials.'' 401),
                           w2))
           in if os_path_exists w session_file
              then (case InstagramLoader_call E M_load_session_from_file
                           [username, PyStr session_file] w of
                      (Inr r, w1) \<Rightarrow>
                        (Inr (jsonify ''success'' ''Logged in using existing session.'' 200), w1)
                    | (Inl e, w1) \<Rightarrow>
                        if isinstance e Exception
                        then fresh_login (print_stdout (''Failed to load session: '' @ snd e) w1)
                        else (Inl e, w1))
              else fresh_login w))"

text \<open>\<^verbatim>\<open>reattempt_login\<close>, lines 50 to 68.\<close>

definition reattempt_login :: "env \<Rightarrow> exn + request_body \<Rightarrow> world \<Rightarrow> response result" where
  "reattempt_login E request_json w =
     (case request_data request_json of
        Inl e \<Rightarrow> (Inl e, w)
      | Inr data \<Rightarrow>
     (let username = dict_get data ''username'';
          password = dict_get data ''password''
      in if \<not> truthy username \<or> \<not> truthy password
         then (Inr (jsonify ''failed'' ''Username and password are required.'' 400), w)
         else
           case InstagramLoader_call E M_login [username, password] w of
             (Inl e, w1) \<Rightarrow> (Inl e, w1)
           | (Inr ok, w1) \<Rightarrow>
               if truthy ok
               then (let session_file = get_session_file username in
                     case InstagramLoader_call E M_save_session_to_file
                            [PyStr session_file] w1 of
                       (Inl e, w2) \<Rightarrow> (Inl e, w2)
                     | (Inr r, w2) \<Rightarrow>
                         (Inr (jsonify ''success'' ''Re-login successful.'' 200), w2))
               else (Inr (jsonify ''failed'' ''Re-login failed. Check your credentials.'' 401),
                     w1)))"

text \<open>\<^verbatim>\<open>load_session_from_browser\<close>, lines 71 to 90.\<close>

definition load_session_from_browser :: "env \<Rightarrow> exn + request_body \<Rightarrow> world \<Rightarrow> response result" where
  "load_session_from_browser E request_json w =
     (case request_data request_json of
        Inl e \<Rightarrow> (Inl e, w)
      | Inr data \<Rightarrow>
     (let username = dict_get data ''username'';
          browser = dict_get data ''browser'';
          cookiefile = dict_get data ''cookiefile''
      in if \<not> truthy username \<or> \<not> truthy browser
         then (Inr (jsonify ''failed'' ''Username and browser name are required.'' 400), w)
         else
           case InstagramLoader_call E M_load_session_from_browser [browser, cookiefile] w of
             (Inl e, w1) \<Rightarrow> (Inl e, w1)
           | (Inr ok, w1) \<Rightarrow>
               if truthy ok
               then (let session_file = get_session_file username in
                     case InstagramLoader_call E M_save_session_to_file
                            [PyStr session_file] w1 of
                       (Inl e, w2) \<Rightarrow> (Inl e, w2)
                     | (Inr r, w2) \<Rightarrow>
                         (Inr (jsonify ''success''
                                 (''Session loaded from '' @ py_str browser @ ''.'') 200), w2))
               else (Inr (jsonify ''failed'' ''Failed to load session from browser.'' 400), w1)))"

text \<open>\<^verbatim>\<open>download_profile\<close>, lines 93 to 123.\<close>

definition download_profile :: "env \<Rightarrow> exn + request_body \<Rightarrow> world \<Rightarrow> response result" where
  "download_profile E request_json w =
     (case request_data request_json of
        Inl e \<Rightarrow> (Inl e, w)
      | Inr data \<Rightarrow>
     (let profile_name = dict_get data ''profile_name'';
          download_posts = dict_get_default data ''download_posts'' (PyBool True);
          download_stories = dict_get_default data ''download_stories'' (PyBool False);
          download_highlights = dict_get_default data ''download_highlights'' (PyBool False);
          download_tagged = dict_get_default data ''download_tagged'' (PyBool False);
          download_reels = dict_get_default data ''download_reels'' (PyBool False);
          download_igtv = dict_get_default data ''download_igtv'' (PyBool False);
          fast_update = dict_get_default data ''fast_update'' (PyBool False)
      in if \<not> truthy profile_name
         then (Inr (jsonify ''failed'' ''Profile name is required.'' 400), w)
         else
           case InstagramLoader_call E M_download_profile
                  [profile_name, download_posts, download_stories, download_highlights,
                   download_tagged, download_reels, download_igtv, fast_update] w of
             (Inl e, w1) \<Rightarrow> (Inl e, w1)
           | (Inr ok, w1) \<Rightarrow>
               if truthy ok
               then (Inr (jsonify ''success''
                            (''Downloaded content from '' @ py_str profile_name @ ''.'') 200), w1)
               else (Inr (jsonify ''failed''
                            (''Failed to download content from '' @ py_str profile_name @ ''.'')
                            400), w1)))"

text \<open>\<^verbatim>\<open>download_hashtag\<close>, lines 126 to 141.\<close>

definition download_hashtag :: "env \<Rightarrow> exn + request_body \<Rightarrow> world \<Rightarrow> response result" where
  "download_hashtag E request_json w =
     (case request_data request_json of
        Inl e \<Rightarrow> (Inl e, w)
      | Inr data \<Rightarrow>
     (let hashtag = dict_get data ''hashtag'';
          max_count = dict_get data ''max_count''
      in if \<not> truthy hashtag
         then (Inr (jsonify ''failed'' ''Hashtag is required.'' 400), w)
         else
           case InstagramLoader_call E M_download_hashtag [hashtag, max_count] w of
             (Inl e, w1) \<Rightarrow> (Inl e, w1)
           | (Inr ok, w1) \<Rightarrow>
               if truthy ok
               then (Inr (jsonify ''success''
                            (''Downloaded posts from #'' @ py_str hashtag @ ''.'') 200), w1)
               else (Inr (jsonify ''failed''
                            (''Failed to download posts from #'' @ py_str hashtag @ ''.'') 400),
                     w1)))"

text \<open>\<^verbatim>\<open>download_stories\<close>, lines 144 to 158.\<close>

definition download_stories :: "env \<Rightarrow> exn + request_body \<Rightarrow> world \<Rightarrow> response result" where
  "download_stories E request_json w =
     (case request_data request_json of
        Inl e \<Rightarrow> (Inl e, w)
      | Inr data \<Rightarrow>
     (let profile_name = dict_get data ''profile_name''
      in if \<not> truthy profile_name
         then (Inr (jsonify ''failed'' ''Profile name is required.'' 400), w)
         else
           case InstagramLoader_call E M_download_stories [profile_name] w of
             (Inl e, w1) \<Rightarrow> (Inl e, w1)
           | (Inr ok, w1) \<Rightarrow>
               if truthy ok
               then (Inr (jsonify ''success''
                            (''Downloaded stories from '' @ py_str profile_name @ ''.'') 200), w1)
               else (Inr (jsonify ''failed''
                            (''Failed to download stories from '' @ py_str profile_name @ ''.'')
                            400), w1)))"

text \<open>\<^verbatim>\<open>close\<close>, lines 161 to 167. It does not read the request.\<close>

definition close :: "env \<Rightarrow> world \<Rightarrow> response result" where
  "close E w =
     (case InstagramLoader_call E M_close [] w of
        (Inl e, w1) \<Rightarrow> (Inl e, w1)
      | (Inr r, w1) \<Rightarrow> (Inr (jsonify ''success'' ''Loader closed successfully.'' 200), w1))"


section \<open>What a run invoked, and concrete collaborators\<close>

text \<open>The calls into the external libraries that a trace holds, in order.\<close>

fun is_external :: "event \<Rightarrow> bool" where
  "is_external (LoaderCall m args) = False"
| "is_external ev = True"

definition external_calls :: "world \<Rightarrow> event list" where
  "external_calls w = filter is_external (trace w)"

text \<open>
  For the statements below: what becomes of an exception \<open>e\<close> at an \<^verbatim>\<open>except cls\<close>
  clause whose body returns \<open>r\<close>: \<open>r\<close> is returned when \<open>e\<close> is an instance of
  \<open>cls\<close>, and \<open>e\<close> goes on otherwise.
\<close>

definition caught_as :: "exn_class \<Rightarrow> 'a \<Rightarrow> exn \<Rightarrow> exn + 'a" where
  "caught_as cls r e = (if isinstance e cls then Inr r else Inl e)"

text \<open>
  A concrete set of collaborators, to run the model on: the account alice has the
  password "correct", the account carol needs a second factor, every other login is
  refused as bad credentials; Chrome holds a live Instagram session cookie that the
  service resolves to the account bob, Edge holds a stale one, Firefox holds cookies
  of other sites only, and every other browser's cookie database cannot be read; the
  profile bob exists, no other does. The library's \<^verbatim>\<open>Instaloader.download_profile\<close>
  has no parameter named \<^verbatim>\<open>download_posts\<close>, \<^verbatim>\<open>download_highlights\<close>,
  \<^verbatim>\<open>download_reels\<close> or \<^verbatim>\<open>download_igtv\<close>, so the call of lines 164 to 173,
  which passes them as keywords, raises TypeError; the downloads of a hashtag and of
  stories succeed.
\<close>

definition chrome_cookies :: "cookie list" where
  "chrome_cookies =
     [\<lparr>cookie_domain = ''.example.org'', cookie_name = ''lang'', cookie_value = ''en''\<rparr>,
      \<lparr>cookie_domain = ''.instagram.com'', cookie_name = ''sessionid'', cookie_value = ''live''\<rparr>]"

definition edge_cookies :: "cookie list" where
  "edge_cookies =
     [\<lparr>cookie_domain = ''.instagram.com'', cookie_name = ''sessionid'', cookie_value = ''stale''\<rparr>]"

definition firefox_cookies :: "cookie list" where
  "firefox_cookies =
     [\<lparr>cookie_domain = ''.example.org'', cookie_name = ''lang'', cookie_value = ''en''\<rparr>]"

definition scenario :: env where
  "scenario =
     \<lparr>bc3_library = True,
      browser_cookie3 = (\<lambda>routine cookiefile.
        if routine = ''chrome'' then Inr chrome_cookies
        else if routine = ''edge'' then Inr edge_cookies
        else if routine = ''firefox'' then Inr firefox_cookies
        else Inl (OSError, ''cookie database not found'')),
      Instaloader_login = (\<lambda>username password c.
        if username = PyStr ''alice'' \<and> password = PyStr ''correct''
        then (None, c\<lparr>ctx_cookies := dict_set ''sessionid'' ''fresh'' (ctx_cookies c),
                       ctx_username := username\<rparr>)
        else if username = PyStr ''carol''
        then (Some (TwoFactorAuthRequiredException, ''two-factor authentication required''), c)
        else (Some (BadCredentialsException, ''Wrong password''), c)),
      Instaloader_test_login = (\<lambda>c.
        if map_of (ctx_cookies c) ''sessionid'' = Some ''live'' then (Inr (PyStr ''bob''), c)
        else (Inr PyNone, c)),
      Profile_from_username = (\<lambda>profile_name c.
        if profile_name = PyStr ''bob'' then (Inr ''bob'', c)
        else (Inl (ProfileNotExistsException, ''Profile does not exist.''), c)),
      Instaloader_download_profile = (\<lambda>profile flags c.
        (Some (TypeError,
           ''Instaloader.download_profile() got an unexpected keyword argument ''
             @ [CHR 0x27] @ ''download_posts'' @ [CHR 0x27]), c)),
      Instaloader_download_hashtag = (\<lambda>hashtag max_count c. (None, c)),
      Instaloader_download_stories = (\<lambda>profiles c. (None, c)),
      Instaloader_close = (\<lambda>c. (None, anonymous_context))\<rparr>"


text \<open>The same collaborators while the network is down: the login call raises OSError.\<close>

definition scenario_offline :: env where
  "scenario_offline =
     scenario\<lparr>Instaloader_login :=
        (\<lambda>username password c. (Some (OSError, ''Connection refused''), c))\<rparr>"


text \<open>A process state in which a session file for alice is on disk.\<close>

definition world_with_session :: world where
  "world_with_session =
     initial_world\<lparr>files := [''sessions/alice.session'' \<mapsto> ''saved session of alice'']\<rparr>"


section \<open>Shared facts\<close>

lemmas world_ops = print_stdout_def print_stderr_def log_event_def external_def

lemmas method_defs =
  InstagramLoader_login_def InstagramLoader_load_session_from_browser_def
  load_session_from_browser_try_def InstagramLoader_get_cookies_from_browser_def
  InstagramLoader_download_profile_def download_profile_except_def
  InstagramLoader_download_hashtag_def InstagramLoader_download_stories_def
  download_stories_except_def InstagramLoader_close_def InstagramLoader_call_def

lemmas handler_defs =
  login_def reattempt_login_def load_session_from_browser_def download_profile_def
  download_hashtag_def download_stories_def close_def

lemmas request_defs =
  dict_get_def dict_get_default_def jsonify_def get_session_file_def os_path_join_def
  SESSION_DIR_def os_path_exists_def

lemmas scenario_defs =
  scenario_def chrome_cookies_def edge_cookies_def firefox_cookies_def initial_world_def
  anonymous_context_def update_cookies_def supported_browsers_def

lemma absent_field_falsy: "data key = None \<Longrightarrow> \<not> truthy (dict_get data key)"
  by (simp add: dict_get_def dict_get_default_def)

lemma null_field_falsy: "data key = Some PyNone \<Longrightarrow> \<not> truthy (dict_get data key)"
  by (simp add: dict_get_def dict_get_default_def)

lemma empty_field_falsy: "data key = Some (PyStr []) \<Longrightarrow> \<not> truthy (dict_get data key)"
  by (simp add: dict_get_def dict_get_default_def)

lemma initial_world_fields:
  "loader_context initial_world = anonymous_context"
  "files initial_world = (\<lambda>p. None)"
  "stdout initial_world = []"
  "stderr initial_world = []"
  "trace initial_world = []"
  "external_calls initial_world = []"
  by (simp_all add: initial_world_def external_calls_def)


section \<open>Methods and handlers by the outcomes of the library\<close>

text \<open>
  The result of each loader method and of each handler that calls it without a step of
  its own in between, written out in terms of what the library's calls return or raise.
\<close>

lemma external_calls_LoaderCall:
  "external_calls (log_event (LoaderCall m args) w) = external_calls w"
  by (simp add: external_calls_def log_event_def)

lemma loader_context_log_event: "loader_context (log_event ev w) = loader_context w"
  by (simp add: log_event_def)

lemma handler_world_is_method_world:
  "snd (case r of
          (Inl e, w1) \<Rightarrow> (Inl e, w1)
        | (Inr ok, w1) \<Rightarrow> if truthy ok then (Inr a, w1) else (Inr b, w1))
     = snd r"
  by (auto split: prod.splits sum.splits)

lemma handler_result_is_method_result:
  "fst (case r of
          (Inl e, w1) \<Rightarrow> (Inl e, w1)
        | (Inr ok, w1) \<Rightarrow> if truthy ok then (Inr a, w1) else (Inr b, w1))
     = (case fst r of Inl e \<Rightarrow> Inl e | Inr ok \<Rightarrow> if truthy ok then Inr a else Inr b)"
  by (auto split: prod.splits sum.splits)


lemma ProfileNotExists_is_InstaloaderException:
  "isinstance e ProfileNotExistsException \<Longrightarrow> isinstance e InstaloaderException"
  by (cases "fst e") (auto simp add: isinstance_def)

lemma download_profile_method_result:
  "fst (InstagramLoader_download_profile E profile_name flags w) =
     (case Profile_from_username E profile_name (loader_context w) of
        (Inl e, c) \<Rightarrow> caught_as InstaloaderException (PyBool False) e
      | (Inr profile, c) \<Rightarrow>
          (case fst (Instaloader_download_profile E profile flags c) of
             None \<Rightarrow> Inr (PyBool True)
           | Some e \<Rightarrow> caught_as InstaloaderException (PyBool False) e))"
  using ProfileNotExists_is_InstaloaderException
  by (auto simp add: InstagramLoader_download_profile_def download_profile_except_def
        caught_as_def world_ops Let_def split: prod.splits option.splits sum.splits)






lemma download_profile_handler_result:
  assumes "truthy (dict_get data ''profile_name'')"
  shows "fst (download_profile E (Inr (JsonObject data)) w) =
     (case Profile_from_username E (dict_get data ''profile_name'') (loader_context w) of
        (Inl e, c) \<Rightarrow>
          caught_as InstaloaderException
            (jsonify ''failed''
               (''Failed to download content from '' @ py_str (dict_get data ''profile_name'')
                  @ ''.'') 400) e
      | (Inr profile, c) \<Rightarrow>
          (case fst (Instaloader_download_profile E profile
                       [dict_get_default data ''download_posts'' (PyBool True),
                        dict_get_default data ''download_stories'' (PyBool False),
                        dict_get_default data ''download_highlights'' (PyBool False),
                        dict_get_default data ''download_tagged'' (PyBool False),
                        dict_get_default data ''download_reels'' (PyBool False),
                        dict_get_default data ''download_igtv'' (PyBool False),
                        dict_get_default data ''fast_update'' (PyBool False)] c) of
             None \<Rightarrow>
               Inr (jsonify ''success''
                      (''Downloaded content from '' @ py_str (dict_get data ''profile_name'')
                         @ ''.'') 200)
           | Some e \<Rightarrow>
               caught_as InstaloaderException
                 (jsonify ''failed''
                    (''Failed to download content from ''
                       @ py_str (dict_get data ''profile_name'') @ ''.'') 400) e))"
  using assms
  unfolding download_profile_def Let_def InstagramLoader_call_def
  by (auto simp add: handler_result_is_method_result download_profile_method_result
        loader_context_log_event caught_as_def split: prod.splits sum.splits option.splits)

lemma download_profile_handler_world:
  assumes "truthy (dict_get data ''profile_name'')"
  shows "snd (download_profile E (Inr (JsonObject data)) w)
     = snd (InstagramLoader_download_profile E (dict_get data ''profile_name'')
              [dict_get_default data ''download_posts'' (PyBool True),
               dict_get_default data ''download_stories'' (PyBool False),
               dict_get_default data ''download_highlights'' (PyBool False),
               dict_get_default data ''download_tagged'' (PyBool False),
               dict_get_default data ''download_reels'' (PyBool False),
               dict_get_default data ''download_igtv'' (PyBool False),
               dict_get_default data ''fast_update'' (PyBool False)]
              (log_event
                 (LoaderCall M_download_profile
                    [dict_get data ''profile_name'',
                     dict_get_default data ''download_posts'' (PyBool True),
                     dict_get_default data ''download_stories'' (PyBool False),
                     dict_get_default data ''download_highlights'' (PyBool False),
                     dict_get_default data ''download_tagged'' (PyBool False),
                     dict_get_default data ''download_reels'' (PyBool False),
                     dict_get_default data ''download_igtv'' (PyBool False),
                     dict_get_default data ''fast_update'' (PyBool False)]) w))"
  using assms
  unfolding download_profile_def Let_def InstagramLoader_call_def
  by (simp add: handler_world_is_method_world)





section \<open>Requests without credentials\<close>





section \<open>Browser cookies without browser\_cookie3\<close>





section \<open>Exceptions that reach the framework\<close>








section \<open>How a failed login is reported\<close>

text \<open>
  Claim C6, as stated: the password login classifies every failure of the
  authentication layer, a required second factor as a failure distinct from bad
  credentials, and no exception escapes unclassified. It fails on both counts: while the
  network is down the OSError of the library's login call leaves
  \<^verbatim>\<open>InstagramLoader.login\<close> as an exception, and an account that needs a second factor
  gets the same return value, False, as a wrong password.
\<close>

theorem login_lets_OSError_escape_and_merges_failures:
  "fst (InstagramLoader_login scenario_offline (PyStr ''alice'') (PyStr ''correct'')
          initial_world)
     = Inl (OSError, ''Connection refused'')
   \<and> fst (InstagramLoader_login scenario (PyStr ''carol'') (PyStr ''secret'') initial_world)
     = Inr (PyBool False)
   \<and> fst (InstagramLoader_login scenario (PyStr ''alice'') (PyStr ''wrong'') initial_world)
     = Inr (PyBool False)"
  by (simp add: method_defs world_ops scenario_offline_def scenario_def initial_world_def
        isinstance_def)

text \<open>
  Claim C6, amended. \<^verbatim>\<open>InstagramLoader.login\<close> returns True when the library's login
  call returns. When the call raises a BadCredentialsException, a
  TwoFactorAuthRequiredException or a LoginException, it returns False, the same value
  for the three, and prints "Login failed: " with the exception's message on stderr,
  which is the only place where the three differ. Any other exception leaves the method
  as it was raised, with nothing printed.
\<close>

theorem login_returns_False_for_login_exceptions_only:
  "(fst (Instaloader_login E username password (loader_context w)) = None \<longrightarrow>
      fst (InstagramLoader_login E username password w) = Inr (PyBool True))
   \<and> (\<forall>e. fst (Instaloader_login E username password (loader_context w)) = Some e \<longrightarrow>
        (if isinstance e BadCredentialsException
            \<or> isinstance e TwoFactorAuthRequiredException
            \<or> isinstance e LoginException
         then fst (InstagramLoader_login E username password w) = Inr (PyBool False)
              \<and> stderr (snd (InstagramLoader_login E username password w))
                  = stderr w @ [''Login failed: '' @ snd e]
         else fst (InstagramLoader_login E username password w) = Inl e
              \<and> stderr (snd (InstagramLoader_login E username password w)) = stderr w))"
  by (auto simp add: InstagramLoader_login_def world_ops Let_def
      split: prod.splits option.splits)

theorem login_returns_False_for_login_exceptions_only_witness:
  "fst (InstagramLoader_login scenario (PyStr ''carol'') (PyStr ''secret'') initial_world)
     = Inr (PyBool False)
   \<and> stderr (snd (InstagramLoader_login scenario (PyStr ''carol'') (PyStr ''secret'')
                    initial_world))
     = [''Login failed: two-factor authentication required'']
   \<and> fst (InstagramLoader_login scenario (PyStr ''alice'') (PyStr ''correct'') initial_world)
     = Inr (PyBool True)
   \<and> fst (InstagramLoader_login scenario_offline (PyStr ''alice'') (PyStr ''correct'')
            initial_world)
     = Inl (OSError, ''Connection refused'')
   \<and> stderr (snd (InstagramLoader_login scenario_offline (PyStr ''alice'') (PyStr ''correct'')
                    initial_world))
     = []"
proof -
  have second_factor:
    "fst (Instaloader_login scenario (PyStr ''carol'') (PyStr ''secret'')
            (loader_context initial_world))
       = Some (TwoFactorAuthRequiredException, ''two-factor authentication required'')"
    by (simp add: scenario_def)
  have accepted:
    "fst (Instaloader_login scenario (PyStr ''alice'') (PyStr ''correct'')
            (loader_context initial_world)) = None"
    by (simp add: scenario_def)
  have offline:
    "fst (Instaloader_login scenario_offline (PyStr ''alice'') (PyStr ''correct'')
            (loader_context initial_world))
       = Some (OSError, ''Connection refused'')"
    by (simp add: scenario_def scenario_offline_def)
  show ?thesis
    using login_returns_False_for_login_exceptions_only
            [of scenario "PyStr ''carol''" "PyStr ''secret''" initial_world] second_factor
          login_returns_False_for_login_exceptions_only
            [of scenario "PyStr ''alice''" "PyStr ''correct''" initial_world] accepted
          login_returns_False_for_login_exceptions_only
            [of scenario_offline "PyStr ''alice''" "PyStr ''correct''" initial_world] offline
    by (simp add: isinstance_def initial_world_fields)
qed


section \<open>Downloading a profile before any login\<close>

lemma download_profile_method_calls:
  "\<exists>evs. external_calls (snd (InstagramLoader_download_profile E profile_name flags w))
            = external_calls w @ ExtProfileFromUsername profile_name # evs
          \<and> (evs = [] \<or> (\<exists>profile. evs = [ExtDownloadProfile profile flags]))"
  by (auto simp add: InstagramLoader_download_profile_def download_profile_except_def
        world_ops Let_def external_calls_def
      split: prod.splits option.splits sum.splits if_splits)

lemma download_profile_handler_calls:
  assumes "truthy (dict_get data ''profile_name'')"
  shows "\<exists>evs. external_calls (snd (download_profile E (Inr (JsonObject data)) w))
                 = external_calls w
                     @ ExtProfileFromUsername (dict_get data ''profile_name'') # evs
               \<and> (evs = []
                  \<or> (\<exists>profile.
                       evs = [ExtDownloadProfile profile
                                [dict_get_default data ''download_posts'' (PyBool True),
                                 dict_get_default data ''download_stories'' (PyBool False),
                                 dict_get_default data ''download_highlights'' (PyBool False),
                                 dict_get_default data ''download_tagged'' (PyBool False),
                                 dict_get_default data ''download_reels'' (PyBool False),
                                 dict_get_default data ''download_igtv'' (PyBool False),
                                 dict_get_default data ''fast_update'' (PyBool False)]]))"
proof -
  let ?flags =
    "[dict_get_default data ''download_posts'' (PyBool True),
      dict_get_default data ''download_stories'' (PyBool False),
      dict_get_default data ''download_highlights'' (PyBool False),
      dict_get_default data ''download_tagged'' (PyBool False),
      dict_get_default data ''download_reels'' (PyBool False),
      dict_get_default data ''download_igtv'' (PyBool False),
      dict_get_default data ''fast_update'' (PyBool False)]"
  let ?w =
    "log_event (LoaderCall M_download_profile (dict_get data ''profile_name'' # ?flags)) w"
  from download_profile_method_calls [of E "dict_get data ''profile_name''" ?flags ?w]
  show ?thesis
    unfolding download_profile_handler_world [OF assms] external_calls_LoaderCall
    by blast
qed

text \<open>
  Claim C3, as stated: \<^verbatim>\<open>download_profile\<close> before any successful login fails as
  NotAuthenticated and attempts no network retrieval. It fails in the initial state of the
  process, where the context has no username and no cookie. The request for the profile
  nobody has the library resolve the profile through the service; the resolution raises
  ProfileNotExistsException, which is reported as "Profile not found" on stderr and
  answered with the fixed failure message of the handler.
\<close>

theorem download_profile_before_login_calls_the_service:
  "ctx_username (loader_context initial_world) = PyNone
   \<and> ctx_cookies (loader_context initial_world) = []
   \<and> fst (download_profile scenario (Inr (JsonObject [''profile_name'' \<mapsto> PyStr ''nobody'']))
            initial_world)
     = Inr \<lparr>status = ''failed'', message = ''Failed to download content from nobody.'',
            http_status = 400\<rparr>
   \<and> external_calls
       (snd (download_profile scenario
               (Inr (JsonObject [''profile_name'' \<mapsto> PyStr ''nobody''])) initial_world))
     = [ExtProfileFromUsername (PyStr ''nobody'')]
   \<and> stderr
       (snd (download_profile scenario
               (Inr (JsonObject [''profile_name'' \<mapsto> PyStr ''nobody''])) initial_world))
     = [''Profile not found: Profile does not exist.'']"
  by (simp add: handler_defs method_defs request_defs world_ops scenario_def
        initial_world_def external_calls_def anonymous_context_def isinstance_def Let_def)

text \<open>
  Claim C3, amended. \<^verbatim>\<open>InstagramLoader.download_profile\<close> checks no authentication
  state and never logs in: in every state, the initial one included, its calls into the
  library are the resolution of the profile with the current context and, when that
  returns a profile, the download of it with the flags it was given, and nothing else.
  It returns True when neither call raises; an exception of either call makes it return
  False if it is an InstaloaderException (a ProfileNotExistsException is one) and goes
  through if not. A request to \<^verbatim>\<open>/download_profile\<close> that names a profile makes these
  calls with the flags of the request (\<^verbatim>\<open>download_posts\<close> true and the others false
  where the request is silent); it is answered with 200 when neither call raises and
  with 400 when one raises an InstaloaderException, and lets any other exception
  through.
\<close>

theorem download_profile_resolves_without_login:
  "(\<exists>evs. external_calls (snd (InstagramLoader_download_profile E profile_name flags w))
            = external_calls w @ ExtProfileFromUsername profile_name # evs
          \<and> (evs = [] \<or> (\<exists>profile. evs = [ExtDownloadProfile profile flags])))
   \<and> fst (InstagramLoader_download_profile E profile_name flags w) =
       (case Profile_from_username E profile_name (loader_context w) of
          (Inl e, c) \<Rightarrow> caught_as InstaloaderException (PyBool False) e
        | (Inr profile, c) \<Rightarrow>
            (case fst (Instaloader_download_profile E profile flags c) of
               None \<Rightarrow> Inr (PyBool True)
             | Some e \<Rightarrow> caught_as InstaloaderException (PyBool False) e))
   \<and> (truthy (dict_get data ''profile_name'') \<longrightarrow>
        (\<exists>evs. external_calls (snd (download_profile E (Inr (JsonObject data)) w))
                 = external_calls w
                     @ ExtProfileFromUsername (dict_get data ''profile_name'') # evs
               \<and> (evs = []
                  \<or> (\<exists>profile.
                       evs = [ExtDownloadProfile profile
                                [dict_get_default data ''download_posts'' (PyBool True),
                                 dict_get_default data ''download_stories'' (PyBool False),
                                 dict_get_default data ''download_highlights'' (PyBool False),
                                 dict_get_default data ''download_tagged'' (PyBool False),
                                 dict_get_default data ''download_reels'' (PyBool False),
                                 dict_get_default data ''download_igtv'' (PyBool False),
                                 dict_get_default data ''fast_update'' (PyBool False)]])))
        \<and> fst (download_profile E (Inr (JsonObject data)) w) =
            (case Profile_from_username E (dict_get data ''profile_name'')
                    (loader_context w) of
               (Inl e, c) \<Rightarrow>
                 caught_as InstaloaderException
                   (jsonify ''failed''
                      (''Failed to download content from ''
                         @ py_str (dict_get data ''profile_name'') @ ''.'') 400) e
             | (Inr profile, c) \<Rightarrow>
                 (case fst (Instaloader_download_profile E profile
                              [dict_get_default data ''download_posts'' (PyBool True),
                               dict_get_default data ''download_stories'' (PyBool False),
                               dict_get_default data ''download_highlights'' (PyBool False),
                               dict_get_default data ''download_tagged'' (PyBool False),
                               dict_get_default data ''download_reels'' (PyBool False),
                               dict_get_default data ''download_igtv'' (PyBool False),
                               dict_get_default data ''fast_update'' (PyBool False)] c) of
                    None \<Rightarrow>
                      Inr (jsonify ''success''
                             (''Downloaded content from ''
                                @ py_str (dict_get data ''profile_name'') @ ''.'') 200)
                  | Some e \<Rightarrow>
                      caught_as InstaloaderException
                        (jsonify ''failed''
                           (''Failed to download content from ''
                              @ py_str (dict_get data ''profile_name'') @ ''.'') 400) e)))"
  using download_profile_method_calls [of E profile_name flags w]
    download_profile_method_result [of E profile_name flags w]
    download_profile_handler_calls [of data E w]
    download_profile_handler_result [of data E w]
  by blast

theorem download_profile_resolves_without_login_witness:
  "fst (InstagramLoader_download_profile scenario (PyStr ''nobody'') [] initial_world)
     = Inr (PyBool False)
   \<and> fst (download_profile scenario
            (Inr (JsonObject
               [''profile_name'' \<mapsto> PyStr ''nobody'', ''fast_update'' \<mapsto> PyBool True]))
            initial_world)
     = Inr \<lparr>status = ''failed'', message = ''Failed to download content from nobody.'',
            http_status = 400\<rparr>
   \<and> (\<exists>evs. external_calls
              (snd (download_profile scenario
                      (Inr (JsonObject
                         [''profile_name'' \<mapsto> PyStr ''nobody'',
                          ''fast_update'' \<mapsto> PyBool True]))
                      initial_world))
            = ExtProfileFromUsername (PyStr ''nobody'') # evs
          \<and> (evs = []
             \<or> (\<exists>profile.
                  evs = [ExtDownloadProfile profile
                           [PyBool True, PyBool False, PyBool False, PyBool False,
                            PyBool False, PyBool False, PyBool True]])))"
proof -
  let ?data = "[''profile_name'' \<mapsto> PyStr ''nobody'', ''fast_update'' \<mapsto> PyBool True]"
  have named: "truthy (dict_get ?data ''profile_name'')"
    by (simp add: dict_get_def dict_get_default_def)
  have fields:
    "dict_get ?data ''profile_name'' = PyStr ''nobody''"
    "dict_get_default ?data ''download_posts'' (PyBool True) = PyBool True"
    "dict_get_default ?data ''download_stories'' (PyBool False) = PyBool False"
    "dict_get_default ?data ''download_highlights'' (PyBool False) = PyBool False"
    "dict_get_default ?data ''download_tagged'' (PyBool False) = PyBool False"
    "dict_get_default ?data ''download_reels'' (PyBool False) = PyBool False"
    "dict_get_default ?data ''download_igtv'' (PyBool False) = PyBool False"
    "dict_get_default ?data ''fast_update'' (PyBool False) = PyBool True"
    by (simp_all add: dict_get_def dict_get_default_def)
  have nobody:
    "Profile_from_username scenario (PyStr ''nobody'') (loader_context initial_world)
       = (Inl (ProfileNotExistsException, ''Profile does not exist.''), anonymous_context)"
    by (simp add: scenario_def initial_world_fields)
  have caught:
    "caught_as InstaloaderException r
       (ProfileNotExistsException, ''Profile does not exist.'') = Inr r" for r :: 'a
    by (simp add: caught_as_def isinstance_def)
  note inst =
    download_profile_resolves_without_login
      [where E = scenario and profile_name = "PyStr ''nobody''" and flags = "[]"
         and w = initial_world and data = ?data]
  have returned:
    "fst (InstagramLoader_download_profile scenario (PyStr ''nobody'') [] initial_world)
       = Inr (PyBool False)"
    using inst nobody caught by simp
  have handler:
    "fst (download_profile scenario (Inr (JsonObject ?data)) initial_world)
       = Inr (jsonify ''failed'' ''Failed to download content from nobody.'' 400)"
    using inst named nobody caught unfolding fields by simp
  have calls:
    "\<exists>evs. external_calls (snd (download_profile scenario (Inr (JsonObject ?data))
                                  initial_world))
            = ExtProfileFromUsername (PyStr ''nobody'') # evs
          \<and> (evs = []
             \<or> (\<exists>profile.
                  evs = [ExtDownloadProfile profile
                           [PyBool True, PyBool False, PyBool False, PyBool False,
                            PyBool False, PyBool False, PyBool True]]))"
    using inst named unfolding fields initial_world_fields append_Nil by blast
  show ?thesis
    using returned handler calls by (simp add: jsonify_def)
qed


section \<open>Importing a session from a browser\<close>




lemma browser_method_True:
  assumes "fst (InstagramLoader_load_session_from_browser E browser cookiefile w)
             = Inr (PyBool True)"
  shows "\<exists>cookies c.
           fst (InstagramLoader_get_cookies_from_browser E browser cookiefile w) = Inr cookies
           \<and> Instaloader_test_login E (update_cookies cookies (loader_context w))
               = (Inr (ctx_username (loader_context
                    (snd (InstagramLoader_load_session_from_browser E browser cookiefile w)))),
                  c)
           \<and> truthy (ctx_username (loader_context
                 (snd (InstagramLoader_load_session_from_browser E browser cookiefile w))))"
  using assms
  by (auto simp add: InstagramLoader_load_session_from_browser_def
        load_session_from_browser_try_def InstagramLoader_get_cookies_from_browser_def
        world_ops Let_def
      split: if_splits prod.splits sum.splits option.splits)

lemma browser_handler_context:
  assumes "truthy (dict_get data ''username'')" "truthy (dict_get data ''browser'')"
  shows "loader_context (snd (load_session_from_browser E (Inr (JsonObject data)) w))
           = loader_context (snd (InstagramLoader_load_session_from_browser E
               (dict_get data ''browser'') (dict_get data ''cookiefile'')
               (log_event (LoaderCall M_load_session_from_browser
                             [dict_get data ''browser'', dict_get data ''cookiefile'']) w)))"
  using assms
  by (auto simp add: load_session_from_browser_def InstagramLoader_call_def log_event_def
        no_attribute_def Let_def
      split: prod.splits sum.splits)

text \<open>
  Claim C4, as stated: after a successful import the session is stored under the username
  the liveness probe resolved, not under the one in the request body. It fails for the
  request of alice for the cookies of Chrome, which the service resolves to bob: the
  import succeeds (the context's username becomes bob), the path the handler computes for
  the save is that of alice, and no file exists for bob afterwards. (The save itself
  raises: the loader has no method of that name.)
\<close>

theorem browser_import_path_is_the_callers:
  "ctx_username
     (loader_context
        (snd (load_session_from_browser scenario
                (Inr (JsonObject [''username'' \<mapsto> PyStr ''alice'', ''browser'' \<mapsto> PyStr ''chrome'']))
                initial_world)))
     = PyStr ''bob''
   \<and> get_session_file (PyStr ''bob'') = ''sessions/bob.session''
   \<and> files
       (snd (load_session_from_browser scenario
               (Inr (JsonObject [''username'' \<mapsto> PyStr ''alice'', ''browser'' \<mapsto> PyStr ''chrome'']))
               initial_world))
       ''sessions/bob.session''
     = None
   \<and> last (trace
       (snd (load_session_from_browser scenario
               (Inr (JsonObject [''username'' \<mapsto> PyStr ''alice'', ''browser'' \<mapsto> PyStr ''chrome'']))
               initial_world)))
     = LoaderCall M_save_session_to_file [PyStr ''sessions/alice.session'']
   \<and> fst (load_session_from_browser scenario
            (Inr (JsonObject [''username'' \<mapsto> PyStr ''alice'', ''browser'' \<mapsto> PyStr ''chrome'']))
            initial_world)
     = Inl (no_attribute ''save_session_to_file'')"
  by (simp add: handler_defs method_defs request_defs world_ops scenario_defs isinstance_def
        Let_def)

text \<open>
  Claim C4, amended. When the import succeeds (the request names a username and a browser,
  and \<^verbatim>\<open>InstagramLoader.load_session_from_browser\<close> returns True), the username the
  liveness probe returned is written to the loader's context only; the path the handler
  hands to the save step is \<^verbatim>\<open>get_session_file\<close> of the username in the request body,
  whatever the probe resolved.
\<close>

theorem browser_import_saves_under_request_username:
  assumes "truthy (dict_get data ''username'')" "truthy (dict_get data ''browser'')"
    and "fst (InstagramLoader_load_session_from_browser E (dict_get data ''browser'')
                (dict_get data ''cookiefile'')
                (log_event (LoaderCall M_load_session_from_browser
                              [dict_get data ''browser'', dict_get data ''cookiefile'']) w))
           = Inr (PyBool True)"
  shows "last (trace (snd (load_session_from_browser E (Inr (JsonObject data)) w)))
           = LoaderCall M_save_session_to_file
               [PyStr (get_session_file (dict_get data ''username''))]
       \<and> (\<exists>cookies c.
             Instaloader_test_login E (update_cookies cookies (loader_context w))
               = (Inr (ctx_username (loader_context (snd (load_session_from_browser E (Inr (JsonObject data)) w)))),
                  c))
       \<and> truthy (ctx_username (loader_context (snd (load_session_from_browser E (Inr (JsonObject data)) w))))"
proof -
  have "last (trace (snd (load_session_from_browser E (Inr (JsonObject data)) w)))
           = LoaderCall M_save_session_to_file
               [PyStr (get_session_file (dict_get data ''username''))]"
    using assms
    by (auto simp add: load_session_from_browser_def InstagramLoader_call_def log_event_def
          Let_def split: prod.splits sum.splits)
  moreover
  from browser_method_True [OF assms(3)] browser_handler_context [OF assms(1,2), of E w]
  have "(\<exists>cookies c.
             Instaloader_test_login E (update_cookies cookies (loader_context w))
               = (Inr (ctx_username (loader_context (snd (load_session_from_browser E (Inr (JsonObject data)) w)))),
                  c))
       \<and> truthy (ctx_username (loader_context (snd (load_session_from_browser E (Inr (JsonObject data)) w))))"
    by (auto simp add: log_event_def)
  ultimately show ?thesis by blast
qed

theorem browser_import_saves_under_request_username_witness:
  "last (trace
      (snd (load_session_from_browser scenario
              (Inr (JsonObject [''username'' \<mapsto> PyStr ''dave'', ''browser'' \<mapsto> PyStr ''chrome'']))
              initial_world)))
     = LoaderCall M_save_session_to_file [PyStr ''sessions/dave.session'']
   \<and> ctx_username
       (loader_context
          (snd (load_session_from_browser scenario
                  (Inr (JsonObject [''username'' \<mapsto> PyStr ''dave'', ''browser'' \<mapsto> PyStr ''chrome'']))
                  initial_world)))
     = PyStr ''bob''"
proof -
  let ?data = "[''username'' \<mapsto> PyStr ''dave'', ''browser'' \<mapsto> PyStr ''chrome'']"
  have fields: "truthy (dict_get ?data ''username'')" "truthy (dict_get ?data ''browser'')"
    by (simp_all add: dict_get_def dict_get_default_def)
  have imported:
    "fst (InstagramLoader_load_session_from_browser scenario (dict_get ?data ''browser'')
            (dict_get ?data ''cookiefile'')
            (log_event (LoaderCall M_load_session_from_browser
                          [dict_get ?data ''browser'', dict_get ?data ''cookiefile''])
               initial_world))
       = Inr (PyBool True)"
    by (simp add: method_defs request_defs world_ops scenario_defs Let_def)
  have path: "get_session_file (dict_get ?data ''username'') = ''sessions/dave.session''"
    by (simp add: request_defs)
  have probe:
    "\<And>cookies v c.
       Instaloader_test_login scenario (update_cookies cookies (loader_context initial_world))
         = (Inr v, c) \<Longrightarrow> truthy v \<Longrightarrow> v = PyStr ''bob''"
    by (auto simp add: scenario_def split: if_splits)
  from browser_import_saves_under_request_username [OF fields imported]
  show ?thesis unfolding path using probe by metis
qed









section \<open>Session files\<close>

text \<open>
  Claim C2 says that a first login with a password the service accepts is answered with
  200 and leaves a session file at \<^verbatim>\<open>sessions/U.session\<close>. The code attempts it, with
  \<^verbatim>\<open>loader.save_session_to_file(session_file)\<close> on line 44 of \<^verbatim>\<open>app.py\<close>, but
  \<^verbatim>\<open>loader\<close> is an \<^verbatim>\<open>InstagramLoader\<close>, which defines no such method. So
  whenever the library's login call accepts the credentials of a request, whether a
  session file exists or not, the handler raises AttributeError instead of answering,
  and the files on disk are what they were.
\<close>

theorem accepted_login_raises_at_save:
  assumes "truthy (dict_get data ''username'')" "truthy (dict_get data ''password'')"
    and "fst (Instaloader_login E (dict_get data ''username'') (dict_get data ''password'')
                (loader_context w)) = None"
  shows "fst (login E (Inr (JsonObject data)) w) = Inl (no_attribute ''save_session_to_file'')
       \<and> files (snd (login E (Inr (JsonObject data)) w)) = files w"
  using assms
  by (auto simp add: login_def InstagramLoader_call_def InstagramLoader_login_def world_ops
        Let_def no_attribute_def isinstance_def
      split: prod.splits option.splits)

text \<open>
  Run on the request of alice with her password and no session file on disk: the
  library's login is called once and accepts, the handler raises, and no file exists at
  \<^verbatim>\<open>sessions/alice.session\<close> afterwards.
\<close>

theorem accepted_login_raises_at_save_witness:
  "files initial_world (get_session_file (PyStr ''alice'')) = None
   \<and> get_session_file (PyStr ''alice'') = ''sessions/alice.session''
   \<and> fst (login scenario
            (Inr (JsonObject [''username'' \<mapsto> PyStr ''alice'', ''password'' \<mapsto> PyStr ''correct'']))
            initial_world)
     = Inl (AttributeError,
            [CHR 0x27] @ ''InstagramLoader'' @ [CHR 0x27] @ '' object has no attribute ''
              @ [CHR 0x27] @ ''save_session_to_file'' @ [CHR 0x27])
   \<and> external_calls
       (snd (login scenario
               (Inr (JsonObject [''username'' \<mapsto> PyStr ''alice'', ''password'' \<mapsto> PyStr ''correct'']))
               initial_world))
     = [ExtLogin (PyStr ''alice'') (PyStr ''correct'')]
   \<and> files
       (snd (login scenario
               (Inr (JsonObject [''username'' \<mapsto> PyStr ''alice'', ''password'' \<mapsto> PyStr ''correct'']))
               initial_world))
       ''sessions/alice.session''
     = None"
proof -
  let ?data = "[''username'' \<mapsto> PyStr ''alice'', ''password'' \<mapsto> PyStr ''correct'']"
  have fields: "truthy (dict_get ?data ''username'')" "truthy (dict_get ?data ''password'')"
    by (simp_all add: dict_get_def dict_get_default_def)
  have accepted:
    "fst (Instaloader_login scenario (dict_get ?data ''username'') (dict_get ?data ''password'')
            (loader_context initial_world)) = None"
    by (simp add: scenario_def dict_get_def dict_get_default_def)
  have path: "get_session_file (PyStr ''alice'') = ''sessions/alice.session''"
    by (simp add: request_defs)
  have calls:
    "external_calls (snd (login scenario (Inr (JsonObject ?data)) initial_world))
       = [ExtLogin (PyStr ''alice'') (PyStr ''correct'')]"
    by (simp add: handler_defs method_defs request_defs world_ops scenario_def
          initial_world_def external_calls_def no_attribute_def Let_def)
  from accepted_login_raises_at_save [OF fields accepted]
  show ?thesis
    using path calls by (simp add: no_attribute_def initial_world_fields)
qed

text \<open>
  Claim C8 says that a login for a username whose session file exists is answered with 200
  from the stored session, without a password login. The code attempts it, with
  \<^verbatim>\<open>loader.load_session_from_file(username, session_file)\<close> on line 36 of
  \<^verbatim>\<open>app.py\<close>, but \<^verbatim>\<open>InstagramLoader\<close> defines no such method: the AttributeError
  is caught by the \<^verbatim>\<open>except Exception\<close> around it, reported on stdout, and the
  handler goes on to the password login. So whenever the session file of a request's
  username exists, the handler still makes the library's login call with the password of
  the request, and the only response it can return is the 401 of a refused login.
\<close>

theorem login_with_session_file_uses_password:
  assumes "truthy (dict_get data ''username'')" "truthy (dict_get data ''password'')"
    and "os_path_exists w (get_session_file (dict_get data ''username''))"
  shows "external_calls (snd (login E (Inr (JsonObject data)) w))
           = external_calls w @ [ExtLogin (dict_get data ''username'') (dict_get data ''password'')]
       \<and> stdout (snd (login E (Inr (JsonObject data)) w))
           = stdout w @ [''Failed to load session: ''
                          @ snd (no_attribute ''load_session_from_file'')]
       \<and> (\<forall>r. fst (login E (Inr (JsonObject data)) w) = Inr r \<longrightarrow>
             r = jsonify ''failed'' ''Login failed. Check your credentials.'' 401)"
  using assms
  by (auto simp add: login_def InstagramLoader_call_def InstagramLoader_login_def world_ops
        Let_def no_attribute_def isinstance_def external_calls_def
      split: prod.splits option.splits if_splits)

text \<open>
  Run with the session file of alice on disk: with a password the service refuses the
  request is answered with 401 after a password login, and with the right password the
  handler raises at the save, as for claim C2.
\<close>

theorem login_with_session_file_uses_password_witness:
  "os_path_exists world_with_session (get_session_file (PyStr ''alice''))
   \<and> fst (login scenario
            (Inr (JsonObject [''username'' \<mapsto> PyStr ''alice'', ''password'' \<mapsto> PyStr ''anything'']))
            world_with_session)
     = Inr \<lparr>status = ''failed'', message = ''Login failed. Check your credentials.'',
            http_status = 401\<rparr>
   \<and> external_calls
       (snd (login scenario
               (Inr (JsonObject [''username'' \<mapsto> PyStr ''alice'', ''password'' \<mapsto> PyStr ''anything'']))
               world_with_session))
     = [ExtLogin (PyStr ''alice'') (PyStr ''anything'')]
   \<and> fst (login scenario
            (Inr (JsonObject [''username'' \<mapsto> PyStr ''alice'', ''password'' \<mapsto> PyStr ''correct'']))
            world_with_session)
     = Inl (no_attribute ''save_session_to_file'')"
proof -
  let ?data = "[''username'' \<mapsto> PyStr ''alice'', ''password'' \<mapsto> PyStr ''anything'']"
  have fields: "truthy (dict_get ?data ''username'')" "truthy (dict_get ?data ''password'')"
    by (simp_all add: dict_get_def dict_get_default_def)
  have on_disk: "os_path_exists world_with_session (get_session_file (PyStr ''alice''))"
    by (simp add: request_defs world_with_session_def)
  then have exists:
    "os_path_exists world_with_session (get_session_file (dict_get ?data ''username''))"
    by (simp add: dict_get_def dict_get_default_def)
  have refused:
    "fst (login scenario (Inr (JsonObject ?data)) world_with_session)
       = Inr (jsonify ''failed'' ''Login failed. Check your credentials.'' 401)"
    by (simp add: handler_defs method_defs request_defs world_ops scenario_def
          initial_world_def world_with_session_def no_attribute_def Let_def isinstance_def)
  have raised:
    "fst (login scenario
            (Inr (JsonObject [''username'' \<mapsto> PyStr ''alice'', ''password'' \<mapsto> PyStr ''correct'']))
            world_with_session)
       = Inl (no_attribute ''save_session_to_file'')"
    by (simp add: handler_defs method_defs request_defs world_ops scenario_def
          initial_world_def world_with_session_def no_attribute_def Let_def isinstance_def)
  have before: "external_calls world_with_session = []"
    by (simp add: external_calls_def world_with_session_def initial_world_def)
  from login_with_session_file_uses_password [OF fields exists, of scenario]
  show ?thesis
    using on_disk refused raised before
    by (simp add: jsonify_def dict_get_def dict_get_default_def)
qed

end
